theory Spec2Isabelle
  imports Complex_Main
begin

section \<open>Repository health scoring (health-calculator)\<close>

text \<open>
  A shallow embedding of the scoring module: \<open>calculateHealthScore\<close>, its five sub-score
  calculators, \<open>getDaysSince\<close>, \<open>getTimeAgo\<close> and \<open>transformGitHubRepoToRepository\<close>.

  How the values of the program are represented:
  \<^item> A count (\<open>stargazers_count\<close>, \<open>contributors\<close>, \<open>goodFirstIssues\<close>, a score, a number of
    days, a time value) is an \<open>int\<close>. The program computes on binary64 numbers, and
    \<open>binary64\<close> below is their rounding. The products \<open>count * 0.3\<close> and \<open>count * 0.5\<close> are
    rounded as the program rounds them. The quotients under \<open>Math.ceil\<close>, \<open>Math.floor\<close> and
    \<open>Math.round\<close> are exact rationals: the first section of lemmas shows that the rounded
    quotient has the same floor, ceiling and rounding for dividends below \<open>2 ^ 53\<close>, which
    the differences of time values read from a real clock and the sums of scores are.
  \<^item> A date string is represented by the time value of \<open>new Date(s)\<close>, in milliseconds:
    \<open>Some t\<close>, or \<open>None\<close> when the string is not a date and \<open>getTime()\<close> is \<open>NaN\<close>.
    A number of days is then an \<open>int option\<close> as well, \<open>None\<close> standing for \<open>NaN\<close>, and every
    comparison with \<open>NaN\<close> is false.
  \<^item> Every call of \<open>getDaysSince\<close> reads the clock with \<open>new Date()\<close>. A function that reads
    it once takes the instant read, \<open>now\<close>; \<open>calculateFreshnessScore\<close> reads it twice and takes
    the two instants in the order of the reads; \<open>calculateHealthScore\<close> and the transformer take
    the clock \<open>clk\<close>, where \<open>clk k\<close> is the instant of the read number \<open>k\<close> of the call,
    counted from 0. \<open>calculateHealthScore\<close> makes 3 reads and the transformer 9, the first 3
    in its call of \<open>calculateHealthScore\<close>.
  \<^item> An optional or nullable field is an \<open>option\<close>; \<open>description\<close> is nullable, as the
    parameter of \<open>calculateDocumentationScore\<close> that receives it. A string is the list of its
    code units. The field \<open>id\<close> is written \<open>id'\<close>.
\<close>

subsection \<open>Data\<close>

record HealthBreakdown =
  activity :: int
  community :: int
  documentation :: int
  freshness :: int
  compatibility :: int

datatype Trend = up | down | stable

record Repository =
  id' :: string
  name :: string
  description :: string
  stars :: int
  healthScore :: int
  lastCommit :: string
  goodFirstIssues :: int
  ciStatus :: string
  language :: string
  license :: string
  contributors :: int
  topics :: "string list"
  signals :: "string list"
  trend :: Trend
  healthBreakdown :: HealthBreakdown
  avgIssueResponseTime :: string
  prMergeRate :: int
  activeContributors :: int
  contributorDiversity :: int
  codeCoverage :: int
  hasGoodDocs :: bool
  hasWiki :: bool
  hasWebsite :: bool

record License =
  spdx_id :: string
  name :: string

record GitHubRepoData =
  id' :: int
  name :: string
  full_name :: string
  description :: "string option"
  stargazers_count :: int
  language :: string
  license :: "License option"
  open_issues_count :: int
  pushed_at :: "int option"
  created_at :: "int option"
  updated_at :: "int option"
  topics :: "string list"
  has_wiki :: bool
  has_pages :: bool
  homepage :: "string option"
  contributors :: "int option"
  goodFirstIssues :: "int option"
  hasCI :: "bool option"

subsection \<open>Numbers, truthiness and strings of the language\<close>

text \<open>Comparisons of a possibly-\<open>NaN\<close> number with an integer literal.\<close>

definition num_le :: "int option \<Rightarrow> int \<Rightarrow> bool" where
  "num_le d k = (case d of None \<Rightarrow> False | Some n \<Rightarrow> n \<le> k)"

definition num_lt :: "int option \<Rightarrow> int \<Rightarrow> bool" where
  "num_lt d k = (case d of None \<Rightarrow> False | Some n \<Rightarrow> n < k)"

definition num_gt :: "int option \<Rightarrow> int \<Rightarrow> bool" where
  "num_gt d k = (case d of None \<Rightarrow> False | Some n \<Rightarrow> n > k)"

definition num_eq :: "int option \<Rightarrow> int \<Rightarrow> bool" where
  "num_eq d k = (case d of None \<Rightarrow> False | Some n \<Rightarrow> n = k)"

text \<open>\<open>x || 0\<close> on an optional number: \<open>undefined\<close> and \<open>0\<close> are falsy.\<close>

definition num_or :: "int option \<Rightarrow> int \<Rightarrow> int" where
  "num_or x d = (case x of None \<Rightarrow> d | Some n \<Rightarrow> if n = 0 then d else n)"

text \<open>A nullable string is truthy when it is present and not empty.\<close>

definition truthy :: "string option \<Rightarrow> bool" where
  "truthy s = (case s of None \<Rightarrow> False | Some t \<Rightarrow> t \<noteq> [])"

definition str_or :: "string option \<Rightarrow> string \<Rightarrow> string" where
  "str_or s d = (case s of None \<Rightarrow> d | Some t \<Rightarrow> if t = [] then d else t)"

definition flag :: "bool option \<Rightarrow> bool" where
  "flag b = (case b of None \<Rightarrow> False | Some v \<Rightarrow> v)"

text \<open>\<open>Math.round\<close> rounds to the nearest integer, a half towards \<open>+\<infinity>\<close>.\<close>

definition Math_round :: "rat \<Rightarrow> int" where
  "Math_round x = \<lfloor>x + 1 / 2\<rfloor>"

text \<open>The decimal digits of a number, as \<open>String(n)\<close> and a template literal print an integer.\<close>

definition digit :: "nat \<Rightarrow> char" where
  "digit n = ''0123456789'' ! (n mod 10)"

fun digits10 :: "nat \<Rightarrow> string" where
  "digits10 n = (if n < 10 then [digit n] else digits10 (n div 10) @ [digit n])"

definition String_of :: "int \<Rightarrow> string" where
  "String_of n = (if n < 0 then CHR ''-'' # digits10 (nat (- n)) else digits10 (nat n))"

definition String_of_num :: "int option \<Rightarrow> string" where
  "String_of_num d = (case d of None \<Rightarrow> ''NaN'' | Some n \<Rightarrow> String_of n)"

text \<open>\<open>Math.floor(days / k)\<close> on a possibly-\<open>NaN\<close> number of days.\<close>

definition floor_div :: "int option \<Rightarrow> int \<Rightarrow> int option" where
  "floor_div d k = (case d of None \<Rightarrow> None | Some n \<Rightarrow> Some \<lfloor>(of_int n :: rat) / of_int k\<rfloor>)"

subsection \<open>Binary64 rounding\<close>

text \<open>The position of the leading binary digit of a positive integer.\<close>

function ilog2 :: "int \<Rightarrow> nat" where
  "ilog2 n = (if n < 2 then 0 else Suc (ilog2 (n div 2)))"
  by pat_completeness auto
termination
  by (relation "measure nat") auto

declare ilog2.simps [simp del]

text \<open>The binary exponent \<open>e\<close> of a positive rational: \<open>2 powi e \<le> x < 2 powi (e + 1)\<close>.\<close>

definition exponent :: "rat \<Rightarrow> int" where
  "exponent x =
     (if 1 \<le> x then int (ilog2 \<lfloor>x\<rfloor>)
      else - int (Suc (ilog2 (\<lceil>1 / x\<rceil> - 1))))"

text \<open>Rounding to the nearest integer, a tie going to the even one.\<close>

definition round_ties_even :: "rat \<Rightarrow> int" where
  "round_ties_even y =
     (let n = \<lfloor>y\<rfloor>; f = y - of_int n
      in if f < 1 / 2 then n else if 1 / 2 < f then n + 1 else if even n then n else n + 1)"

text \<open>
  The binary64 number nearest to \<open>x\<close>, with 53 significant binary digits (for magnitudes
  in the normal range, which all numbers of the program are in).
\<close>

definition binary64 :: "rat \<Rightarrow> rat" where
  "binary64 x =
     (if x = 0 then 0
      else let ulp = 2 powi (exponent \<bar>x\<bar> - 52)
           in sgn x * (of_int (round_ties_even (\<bar>x\<bar> / ulp)) * ulp))"

subsection \<open>Elapsed time\<close>

definition getDaysSince :: "int \<Rightarrow> int option \<Rightarrow> int option" where
  "getDaysSince now dateString =
     (case dateString of
        None \<Rightarrow> None
      | Some date \<Rightarrow>
          (let diffTime = \<bar>now - date\<bar>;
               diffDays = \<lceil>(of_int diffTime :: rat) / (1000 * 60 * 60 * 24)\<rceil>
           in Some diffDays))"

definition getTimeAgo :: "int \<Rightarrow> int option \<Rightarrow> string" where
  "getTimeAgo now dateString =
     (let days = getDaysSince now dateString in
      if num_eq days 0 then ''today''
      else if num_eq days 1 then ''1 day ago''
      else if num_lt days 7 then String_of_num days @ '' days ago''
      else if num_lt days 30 then
        (let weeks = floor_div days 7 in
         if num_eq weeks 1 then ''1 week ago'' else String_of_num weeks @ '' weeks ago'')
      else if num_lt days 365 then
        (let months = floor_div days 30 in
         if num_eq months 1 then ''1 month ago'' else String_of_num months @ '' months ago'')
      else
        (let years = floor_div days 365 in
         if num_eq years 1 then ''1 year ago'' else String_of_num years @ '' years ago''))"

subsection \<open>The five sub-scores\<close>

definition calculateActivityScore :: "int \<Rightarrow> int option \<Rightarrow> int" where
  "calculateActivityScore now pushedAt =
     (let daysSinceLastPush = getDaysSince now pushedAt in
      if num_le daysSinceLastPush 7 then 95
      else if num_le daysSinceLastPush 14 then 90
      else if num_le daysSinceLastPush 30 then 85
      else if num_le daysSinceLastPush 60 then 75
      else if num_le daysSinceLastPush 90 then 65
      else if num_le daysSinceLastPush 180 then 50
      else 30)"

definition calculateCommunityScore :: "int \<Rightarrow> int \<Rightarrow> int" where
  "calculateCommunityScore stars_n contributors_n =
     (let score = 0;
          score = (if stars_n \<ge> 50000 then score + 50
                   else if stars_n \<ge> 10000 then score + 45
                   else if stars_n \<ge> 5000 then score + 40
                   else if stars_n \<ge> 1000 then score + 35
                   else if stars_n \<ge> 500 then score + 25
                   else score + 15);
          score = (if contributors_n \<ge> 500 then score + 50
                   else if contributors_n \<ge> 100 then score + 45
                   else if contributors_n \<ge> 50 then score + 40
                   else if contributors_n \<ge> 20 then score + 30
                   else if contributors_n \<ge> 10 then score + 20
                   else score + 10)
      in min 100 score)"

definition calculateDocumentationScore ::
    "string option \<Rightarrow> bool \<Rightarrow> bool \<Rightarrow> string option \<Rightarrow> int" where
  "calculateDocumentationScore descr hasWiki_b hasPages_b homepage_s =
     (let score = 0;
          score = (if (case descr of None \<Rightarrow> False | Some t \<Rightarrow> t \<noteq> [] \<and> length t > 20)
                   then score + 25 else score);
          score = (if hasWiki_b then score + 25 else score);
          score = (if hasPages_b then score + 25 else score);
          score = (if truthy homepage_s then score + 25 else score)
      in score)"

definition calculateFreshnessScore ::
    "int \<Rightarrow> int \<Rightarrow> int option \<Rightarrow> int option \<Rightarrow> int" where
  "calculateFreshnessScore now1 now2 createdAt pushedAt =
     (let daysSinceCreation = getDaysSince now1 createdAt;
          daysSinceLastPush = getDaysSince now2 pushedAt
      in if num_lt daysSinceCreation 365 then
           (if num_le daysSinceLastPush 30 then 95
            else if num_le daysSinceLastPush 90 then 85
            else 70)
         else if num_le daysSinceLastPush 7 then 95
         else if num_le daysSinceLastPush 30 then 85
         else if num_le daysSinceLastPush 90 then 70
         else if num_le daysSinceLastPush 180 then 55
         else 35)"

definition calculateCompatibilityScore ::
    "License option \<Rightarrow> bool option \<Rightarrow> string list \<Rightarrow> int" where
  "calculateCompatibilityScore license_o hasCI_o topics_l =
     (let score = 0;
          score = (if license_o \<noteq> None then score + 40 else score);
          score = (if flag hasCI_o then score + 30 else score);
          score = (if length topics_l > 0 then score + 30 else score)
      in score)"

subsection \<open>The health score\<close>

definition calculateHealthScore :: "(nat \<Rightarrow> int) \<Rightarrow> GitHubRepoData \<Rightarrow> int" where
  "calculateHealthScore clk repo =
     (let scores = [];
          activityScore = calculateActivityScore (clk 0) (pushed_at repo);
          scores = scores @ [activityScore];
          communityScore =
            calculateCommunityScore (stargazers_count repo) (num_or (contributors repo) 0);
          scores = scores @ [communityScore];
          documentationScore =
            calculateDocumentationScore (description repo) (has_wiki repo) (has_pages repo)
              (homepage repo);
          scores = scores @ [documentationScore];
          freshnessScore =
            calculateFreshnessScore (clk 1) (clk 2) (created_at repo) (pushed_at repo);
          scores = scores @ [freshnessScore];
          compatibilityScore =
            calculateCompatibilityScore (license repo) (hasCI repo) (topics repo);
          scores = scores @ [compatibilityScore];
          averageScore =
            (of_int (foldl (\<lambda>sum score. sum + score) 0 scores) :: rat) / of_nat (length scores)
      in Math_round averageScore)"

subsection \<open>The transformer\<close>

text \<open>
  The destructured \<open>owner\<close> is not used by the program. In the test for
  \<open>Beginner Friendly\<close>, \<open>goodFirstIssues && goodFirstIssues > 0\<close>, the first operand is falsy
  exactly for \<open>undefined\<close> and \<open>0\<close>, for which the comparison is false as well: the test is
  \<open>num_gt\<close>. \<open>topics\<close> is an array, which is truthy. The literals \<open>0.3\<close> and \<open>0.5\<close> are the
  binary64 numbers nearest to \<open>3/10\<close> and \<open>1/2\<close>, and each product is rounded to binary64
  before \<open>Math.floor\<close>.
\<close>

definition transformGitHubRepoToRepository ::
    "(nat \<Rightarrow> int) \<Rightarrow> GitHubRepoData \<Rightarrow> Repository" where
  "transformGitHubRepoToRepository clk githubRepo =
     (let healthScore_v = calculateHealthScore clk githubRepo;
          owner = takeWhile (\<lambda>c. c \<noteq> CHR ''/'') (full_name githubRepo);
          healthBreakdown_v =
            \<lparr> activity = calculateActivityScore (clk 3) (pushed_at githubRepo),
              community =
                calculateCommunityScore (stargazers_count githubRepo)
                  (num_or (contributors githubRepo) 0),
              documentation =
                calculateDocumentationScore (description githubRepo) (has_wiki githubRepo)
                  (has_pages githubRepo) (homepage githubRepo),
              freshness =
                calculateFreshnessScore (clk 4) (clk 5) (created_at githubRepo)
                  (pushed_at githubRepo),
              compatibility =
                calculateCompatibilityScore (license githubRepo) (hasCI githubRepo)
                  (topics githubRepo) \<rparr>;
          daysSinceLastPush = getDaysSince (clk 6) (pushed_at githubRepo);
          trend_v = stable;
          trend_v = (if num_le daysSinceLastPush 7 then up
                     else if num_gt daysSinceLastPush 90 then down
                     else trend_v);
          signals_v = [];
          signals_v = (if num_le daysSinceLastPush 7 then signals_v @ [''Active'']
                       else signals_v);
          signals_v = (if has_wiki githubRepo \<or> has_pages githubRepo
                          \<or> truthy (homepage githubRepo)
                       then signals_v @ [''Good Docs''] else signals_v);
          signals_v = (if num_gt (goodFirstIssues githubRepo) 0
                       then signals_v @ [''Beginner Friendly''] else signals_v);
          signals_v = (if stargazers_count githubRepo \<ge> 10000
                       then signals_v @ [''Large Community''] else signals_v);
          signals_v = (if num_lt (getDaysSince (clk 7) (created_at githubRepo)) 730
                       then signals_v @ [''Modern''] else signals_v)
      in \<lparr> Repository.id' = String_of (id' githubRepo),
           Repository.name = name githubRepo,
           Repository.description = str_or (description githubRepo) ''No description available'',
           stars = stargazers_count githubRepo,
           healthScore = healthScore_v,
           lastCommit = getTimeAgo (clk 8) (pushed_at githubRepo),
           Repository.goodFirstIssues = num_or (goodFirstIssues githubRepo) 0,
           ciStatus = (if flag (hasCI githubRepo) then ''passing'' else ''warning''),
           Repository.language = (if language githubRepo = [] then ''Unknown''
                                  else language githubRepo),
           Repository.license =
             str_or (map_option License.name (license githubRepo)) ''No License'',
           Repository.contributors = num_or (contributors githubRepo) 0,
           Repository.topics = topics githubRepo,
           signals = signals_v,
           trend = trend_v,
           healthBreakdown = healthBreakdown_v,
           avgIssueResponseTime = ''< 2 days'',
           prMergeRate = 75,
           activeContributors =
             \<lfloor>binary64 (of_int (num_or (contributors githubRepo) 0) * binary64 (3 / 10))\<rfloor>,
           contributorDiversity =
             \<lfloor>binary64 (of_int (num_or (contributors githubRepo) 0) * binary64 (1 / 2))\<rfloor>,
           codeCoverage = 80,
           hasGoodDocs = (has_wiki githubRepo \<or> has_pages githubRepo
                          \<or> truthy (homepage githubRepo)),
           hasWiki = has_wiki githubRepo,
           hasWebsite = truthy (homepage githubRepo) \<rparr>)"

subsection \<open>The rules of the specification, as functions of the numbers of days and counts\<close>

text \<open>The two bucket tables of the community sub-score.\<close>

definition spec_stars_bucket :: "int \<Rightarrow> int" where
  "spec_stars_bucket s =
     (if s \<ge> 50000 then 50 else if s \<ge> 10000 then 45 else if s \<ge> 5000 then 40
      else if s \<ge> 1000 then 35 else if s \<ge> 500 then 25 else 15)"

definition spec_contributors_bucket :: "int \<Rightarrow> int" where
  "spec_contributors_bucket c =
     (if c \<ge> 500 then 50 else if c \<ge> 100 then 45 else if c \<ge> 50 then 40
      else if c \<ge> 20 then 30 else if c \<ge> 10 then 20 else 10)"

text \<open>The relative-time text by ranges of the number of days.\<close>

definition spec_timeAgo :: "int \<Rightarrow> string" where
  "spec_timeAgo days =
     (if days = 0 then ''today''
      else if days = 1 then ''1 day ago''
      else if 2 \<le> days \<and> days \<le> 6 then String_of days @ '' days ago''
      else if 7 \<le> days \<and> days \<le> 29 then
        (if days div 7 = 1 then ''1 week ago'' else String_of (days div 7) @ '' weeks ago'')
      else if 30 \<le> days \<and> days \<le> 364 then
        (if days div 30 = 1 then ''1 month ago'' else String_of (days div 30) @ '' months ago'')
      else
        (if days div 365 = 1 then ''1 year ago'' else String_of (days div 365) @ '' years ago''))"

text \<open>The two tiers of the freshness sub-score.\<close>

definition spec_freshness :: "int \<Rightarrow> int \<Rightarrow> int" where
  "spec_freshness sinceCreation sincePush =
     (if sinceCreation < 365 then
        (if sincePush \<le> 30 then 95 else if sincePush \<le> 90 then 85 else 70)
      else
        (if sincePush \<le> 7 then 95 else if sincePush \<le> 30 then 85
         else if sincePush \<le> 90 then 70 else if sincePush \<le> 180 then 55 else 35))"

text \<open>The labels of the signals list, in their order, each kept when its condition holds.\<close>

definition spec_signals :: "bool list \<Rightarrow> string list" where
  "spec_signals conds =
     map fst (filter snd
       (zip [''Active'', ''Good Docs'', ''Beginner Friendly'', ''Large Community'', ''Modern'']
          conds))"

definition cond_Active :: "int \<Rightarrow> GitHubRepoData \<Rightarrow> bool" where
  "cond_Active now r = (\<exists>d. getDaysSince now (pushed_at r) = Some d \<and> d \<le> 7)"

definition cond_GoodDocs :: "GitHubRepoData \<Rightarrow> bool" where
  "cond_GoodDocs r = (has_wiki r \<or> has_pages r \<or> (\<exists>h. homepage r = Some h \<and> h \<noteq> []))"

definition cond_BeginnerFriendly :: "GitHubRepoData \<Rightarrow> bool" where
  "cond_BeginnerFriendly r = (\<exists>n. goodFirstIssues r = Some n \<and> n > 0)"

definition cond_LargeCommunity :: "GitHubRepoData \<Rightarrow> bool" where
  "cond_LargeCommunity r = (stargazers_count r \<ge> 10000)"

definition cond_Modern :: "int \<Rightarrow> GitHubRepoData \<Rightarrow> bool" where
  "cond_Modern now r = (\<exists>d. getDaysSince now (created_at r) = Some d \<and> d < 730)"

subsection \<open>Inputs and clocks for the examples\<close>

text \<open>
  With the clock at 0: \<open>example_lively\<close> was pushed one day ago and created 100 days ago,
  \<open>example_dormant\<close> was pushed 200 days ago and created 1000 days ago, and
  \<open>example_boundary\<close> was pushed 2 milliseconds less than 7 days ago. The clock \<open>frozen\<close>
  gives the instant 0 at every read; the clock \<open>ticking\<close> advances by one millisecond from
  one read to the next.
\<close>

definition example_lively :: GitHubRepoData where
  "example_lively =
     \<lparr> id' = 1, name = ''a'', full_name = ''o/a'', description = None,
       stargazers_count = 20000, language = ''C'', license = None, open_issues_count = 0,
       pushed_at = Some (- 86400000), created_at = Some (- 8640000000), updated_at = Some 0,
       topics = [], has_wiki = True, has_pages = False, homepage = None,
       contributors = None, goodFirstIssues = Some 3, hasCI = None \<rparr>"

definition example_dormant :: GitHubRepoData where
  "example_dormant =
     \<lparr> id' = 2, name = ''b'', full_name = ''o/b'', description = None,
       stargazers_count = 5, language = ''C'', license = None, open_issues_count = 0,
       pushed_at = Some (- 17280000000), created_at = Some (- 86400000000),
       updated_at = Some 0,
       topics = [], has_wiki = False, has_pages = False, homepage = None,
       contributors = None, goodFirstIssues = None, hasCI = None \<rparr>"

definition example_boundary :: GitHubRepoData where
  "example_boundary =
     \<lparr> id' = 3, name = ''c'', full_name = ''o/c'', description = None,
       stargazers_count = 5, language = ''C'', license = None, open_issues_count = 0,
       pushed_at = Some (- 604799998), created_at = Some (- 86400000000),
       updated_at = Some 0,
       topics = [], has_wiki = False, has_pages = False, homepage = None,
       contributors = None, goodFirstIssues = None, hasCI = None \<rparr>"

definition frozen :: "nat \<Rightarrow> int" where
  "frozen k = 0"

definition ticking :: "nat \<Rightarrow> int" where
  "ticking k = int k"

section \<open>Binary64 arithmetic agrees with the exact numbers\<close>

subsection \<open>Exponent and rounding\<close>

lemma ilog2_bounds: "0 < n \<Longrightarrow> 2 ^ ilog2 n \<le> n \<and> n < 2 ^ Suc (ilog2 n)"
proof (induction n rule: ilog2.induct)
  case (1 n)
  show ?case
  proof (cases "n < 2")
    case True
    with "1.prems" have "n = 1" by simp
    then show ?thesis by (simp add: ilog2.simps)
  next
    case False
    then have pos: "0 < n div 2" by simp
    from "1.IH" [OF False pos]
    have lo: "2 ^ ilog2 (n div 2) \<le> n div 2" and hi: "n div 2 < 2 ^ Suc (ilog2 (n div 2))"
      by blast+
    have e: "ilog2 n = Suc (ilog2 (n div 2))" using False by (simp add: ilog2.simps)
    have "2 * 2 ^ ilog2 (n div 2) \<le> 2 * (n div 2)" using lo by simp
    also have "\<dots> \<le> n" by simp
    finally have a: "2 ^ ilog2 n \<le> n" by (simp add: e)
    have "n < 2 * (n div 2) + 2" by linarith
    also have "\<dots> \<le> 2 * 2 ^ Suc (ilog2 (n div 2))" using hi by simp
    finally have b: "n < 2 ^ Suc (ilog2 n)" by (simp add: e)
    from a b show ?thesis by blast
  qed
qed

lemma round_ties_even_error: "\<bar>of_int (round_ties_even y) - y\<bar> \<le> 1 / 2"
proof -
  define n where "n = \<lfloor>y\<rfloor>"
  have "of_int n \<le> y" "y < of_int n + 1" unfolding n_def by linarith+
  then show ?thesis
    unfolding round_ties_even_def Let_def n_def [symmetric]
    by (auto simp: abs_if)
qed

lemma round_ties_even_near:
  assumes "of_int k - 1 / 2 < y" and "y < of_int k + 1 / 2"
  shows "round_ties_even y = k"
proof -
  have e: "\<bar>of_int (round_ties_even y) - y\<bar> \<le> 1 / 2" by (rule round_ties_even_error)
  have "\<bar>(of_int (round_ties_even y) :: rat) - of_int k\<bar> < 1"
    using assms e by linarith
  then have "\<bar>round_ties_even y - k\<bar> < 1"
    by (metis of_int_abs of_int_diff of_int_less_1_iff)
  then show ?thesis by linarith
qed

lemma round_ties_even_of_int [simp]: "round_ties_even (of_int k) = k"
  by (rule round_ties_even_near) simp_all

lemma exponent_bounds:
  assumes "0 < x"
  shows "2 powi exponent x \<le> x \<and> x < 2 powi (exponent x + 1)"
proof (cases "1 \<le> x")
  case True
  define n where "n = \<lfloor>x\<rfloor>"
  have n: "0 < n" using True by (simp add: n_def)
  have nx: "of_int n \<le> x" "x < of_int n + 1" unfolding n_def by linarith+
  from ilog2_bounds [OF n] have lo: "2 ^ ilog2 n \<le> n" and hi: "n < 2 ^ Suc (ilog2 n)"
    by blast+
  have e: "exponent x = int (ilog2 n)" using True by (simp add: exponent_def n_def)
  have p1: "(2::rat) powi exponent x = 2 ^ ilog2 n" by (simp add: e)
  have p2: "(2::rat) powi (exponent x + 1) = 2 ^ Suc (ilog2 n)"
    by (simp add: e power_int_add)
  have "(of_int (2 ^ ilog2 n) :: rat) \<le> of_int n" using lo by (simp only: of_int_le_iff)
  then have l: "(2::rat) ^ ilog2 n \<le> of_int n" by simp
  have "n + 1 \<le> 2 ^ Suc (ilog2 n)" using hi by simp
  then have "(of_int (n + 1) :: rat) \<le> of_int (2 ^ Suc (ilog2 n))" by (simp only: of_int_le_iff)
  then have h: "(of_int n :: rat) + 1 \<le> 2 ^ Suc (ilog2 n)" by simp
  have a: "2 powi exponent x \<le> x" unfolding p1 using l nx by linarith
  have b: "x < 2 powi (exponent x + 1)" unfolding p2 using h nx by linarith
  from a b show ?thesis by blast
next
  case False
  with assms have x: "0 < x" "x < 1" by simp_all
  define y where "y = 1 / x"
  have y: "1 < y" using x by (simp add: y_def)
  define n where "n = \<lceil>y\<rceil> - 1"
  have c: "2 \<le> \<lceil>y\<rceil>" using y by linarith
  then have n: "0 < n" by (simp add: n_def)
  have "(of_int n :: rat) = of_int \<lceil>y\<rceil> - 1" by (simp add: n_def)
  then have ny: "of_int n < y" "y \<le> of_int n + 1" by linarith+
  from ilog2_bounds [OF n] have lo: "2 ^ ilog2 n \<le> n" and hi: "n < 2 ^ Suc (ilog2 n)"
    by blast+
  have e: "exponent x = - int (Suc (ilog2 n))"
    using False by (simp add: exponent_def n_def y_def)
  have q: "(2::rat) powi int (Suc (ilog2 n)) = 2 ^ Suc (ilog2 n)"
    by (rule power_int_of_nat)
  have p1: "(2::rat) powi exponent x = 1 / 2 ^ Suc (ilog2 n)"
    unfolding e power_int_minus q by (rule inverse_eq_divide)
  have "exponent x + 1 = - int (ilog2 n)" by (simp add: e)
  then have p2: "(2::rat) powi (exponent x + 1) = 1 / 2 ^ ilog2 n"
    by (simp add: power_int_minus inverse_eq_divide)
  have "(of_int (2 ^ ilog2 n) :: rat) \<le> of_int n" using lo by (simp only: of_int_le_iff)
  then have l: "(2::rat) ^ ilog2 n \<le> of_int n" by simp
  have "n + 1 \<le> 2 ^ Suc (ilog2 n)" using hi by simp
  then have "(of_int (n + 1) :: rat) \<le> of_int (2 ^ Suc (ilog2 n))" by (simp only: of_int_le_iff)
  then have h: "(of_int n :: rat) + 1 \<le> 2 ^ Suc (ilog2 n)" by simp
  have "1 / x \<le> 2 ^ Suc (ilog2 n)" using h ny unfolding y_def by linarith
  then have "1 \<le> 2 ^ Suc (ilog2 n) * x" using x by (simp add: field_simps)
  then have a: "2 powi exponent x \<le> x" unfolding p1 by (simp add: field_simps)
  have "2 ^ ilog2 n < 1 / x" using l ny unfolding y_def by linarith
  then have "2 ^ ilog2 n * x < 1" using x by (simp add: field_simps)
  then have b: "x < 2 powi (exponent x + 1)" unfolding p2 by (simp add: field_simps)
  from a b show ?thesis by blast
qed

lemma power_int_less_exp:
  assumes "(2::rat) powi m < 2 powi n"
  shows "m < n"
proof (rule ccontr)
  assume "\<not> m < n"
  then have "n \<le> m" by simp
  then have "(2::rat) powi n \<le> 2 powi m" by (rule power_int_increasing) simp
  with assms show False by simp
qed

lemma binary64_pos:
  assumes "0 < x"
  shows "binary64 x =
    of_int (round_ties_even (x / 2 powi (exponent x - 52))) * 2 powi (exponent x - 52)"
  using assms by (simp add: binary64_def Let_def)

lemma ulp_le:
  assumes "0 < x"
  shows "2 powi (exponent x - 52) \<le> x / 2 ^ 52"
proof -
  have "(2::rat) powi (exponent x - 52) = 2 powi exponent x / 2 powi 52"
    by (rule power_int_diff) simp
  also have "\<dots> = 2 powi exponent x / 2 ^ 52" by simp
  also have "\<dots> \<le> x / 2 ^ 52"
    using exponent_bounds [OF assms] by (simp add: divide_right_mono)
  finally show ?thesis .
qed

lemma binary64_error:
  assumes "0 < x"
  shows "\<bar>binary64 x - x\<bar> \<le> x / 2 ^ 53"
proof -
  define u :: rat where "u = 2 powi (exponent x - 52)"
  have u: "0 < u" by (simp add: u_def)
  define m where "m = round_ties_even (x / u)"
  have b: "binary64 x = of_int m * u"
    unfolding m_def u_def by (rule binary64_pos [OF assms])
  have "\<bar>of_int m - x / u\<bar> \<le> 1 / 2" unfolding m_def by (rule round_ties_even_error)
  then have "\<bar>of_int m - x / u\<bar> * u \<le> 1 / 2 * u"
    using u by (simp only: mult_le_cancel_right_pos)
  moreover have "\<bar>of_int m - x / u\<bar> * u = \<bar>of_int m * u - x\<bar>"
  proof -
    have "\<bar>of_int m - x / u\<bar> * u = \<bar>(of_int m - x / u) * u\<bar>"
      using u by (simp add: abs_mult)
    also have "(of_int m - x / u) * u = of_int m * u - x"
      using u by (simp add: field_simps)
    finally show ?thesis .
  qed
  ultimately have "\<bar>binary64 x - x\<bar> \<le> u / 2" by (simp add: b)
  moreover have "u \<le> x / 2 ^ 52" unfolding u_def by (rule ulp_le [OF assms])
  ultimately show ?thesis by simp
qed

lemma binary64_exact:
  assumes "0 < k" and "k < 2 ^ 53"
  shows "binary64 (of_int k / 2 ^ j) = of_int k / 2 ^ j"
proof -
  define x :: rat where "x = of_int k / 2 ^ j"
  have x: "0 < x" using assms by (simp add: x_def)
  define e where "e = exponent x"
  have "2 powi e \<le> x" unfolding e_def using exponent_bounds [OF x] by blast
  also have "x < 2 ^ 53 / 2 ^ j"
  proof -
    have "(of_int k :: rat) < of_int (2 ^ 53)" using assms by (simp only: of_int_less_iff)
    then show ?thesis by (simp add: x_def divide_strict_right_mono)
  qed
  also have "(2::rat) ^ 53 / 2 ^ j = 2 powi (53 - int j)"
    by (simp add: power_int_diff)
  finally have "e < 53 - int j" by (rule power_int_less_exp)
  then have d: "0 \<le> 52 - e - int j" by simp
  define d where "d = nat (52 - e - int j)"
  have dd: "int d = 52 - e - int j" using d by (simp add: d_def)
  have pd: "(2::rat) ^ d = 2 powi (52 - e - int j)"
    using power_int_of_nat [of "2::rat" d] by (simp only: dd)
  have "x / 2 powi (e - 52) = x * 2 powi (52 - e)"
    by (simp add: power_int_diff field_simps)
  also have "\<dots> = of_int k * (2 powi (52 - e) / 2 powi (int j))"
    by (simp add: x_def)
  also have "2 powi (52 - e) / 2 powi (int j) = (2::rat) powi (52 - e - int j)"
    by (rule power_int_diff [symmetric]) simp
  also have "of_int k * (2::rat) powi (52 - e - int j) = of_int (k * 2 ^ d)"
    by (simp add: pd)
  finally have q: "x / 2 powi (e - 52) = of_int (k * 2 ^ d)" .
  have "binary64 x = of_int (k * 2 ^ d) * 2 powi (e - 52)"
    unfolding binary64_pos [OF x] e_def [symmetric] q by (simp only: round_ties_even_of_int)
  also have "\<dots> = of_int k * (2 powi (52 - e - int j) * 2 powi (e - 52))"
    by (simp add: pd)
  also have "2 powi (52 - e - int j) * 2 powi (e - 52) = (2::rat) powi ((52 - e - int j) + (e - 52))"
    by (rule power_int_add [symmetric]) simp
  also have "(52 - e - int j) + (e - 52) = - int j" by simp
  also have "of_int k * (2::rat) powi (- int j) = x"
    by (simp add: x_def power_int_minus field_simps)
  finally show ?thesis by (simp add: x_def)
qed

subsection \<open>The rounded operations of the program\<close>

text \<open>
  \<open>Math.ceil(diffTime / 86400000)\<close> and \<open>Math.floor(days / 7)\<close>: the floor and the ceiling of
  a rounded quotient of integers are those of the exact quotient.
\<close>

lemma binary64_quotient:
  assumes "0 \<le> a" and "a < 2 ^ 53" and "0 < b"
  shows "\<lfloor>binary64 (of_int a / of_int b)\<rfloor> = a div b
    \<and> \<lceil>binary64 (of_int a / of_int b)\<rceil> = - ((- a) div b)"
proof (cases "a mod b = 0")
  case True
  define n where "n = a div b"
  have a: "a = n * b" using True div_mult_mod_eq [of a b] by (simp add: n_def)
  have q: "(of_int a :: rat) / of_int b = of_int n" using assms(3) by (simp add: a)
  have "(- a) div b = - n"
    using assms(3) a by (metis mult_minus_left nonzero_mult_div_cancel_right less_irrefl)
  then have c: "- ((- a) div b) = n" by simp
  have "binary64 (of_int n) = of_int n"
  proof (cases "n = 0")
    case True
    then show ?thesis by (simp add: binary64_def)
  next
    case False
    have "0 \<le> n" using assms(1,3) by (simp add: n_def pos_imp_zdiv_nonneg_iff)
    with False have 1: "0 < n" by simp
    have "n * 1 \<le> n * b" using assms(3) \<open>0 \<le> n\<close> by (intro mult_left_mono) simp_all
    then have "n \<le> a" by (simp add: a)
    with assms(2) have 2: "n < 2 ^ 53" by simp
    from binary64_exact [OF 1 2, of 0] show ?thesis by simp
  qed
  then show ?thesis unfolding q c n_def [symmetric] by simp
next
  case False
  define n where "n = a div b"
  define r where "r = a mod b"
  have "0 \<le> r" "r < b" "r \<noteq> 0"
    using False assms(3) by (simp_all add: r_def)
  then have r: "1 \<le> r" "r \<le> b - 1" by linarith+
  have a: "a = n * b + r" by (simp add: n_def r_def)
  have apos: "0 < a" using assms(1) False by (cases "a = 0") simp_all
  define q :: rat where "q = of_int a / of_int b"
  have bq: "(0::rat) < of_int b" using assms(3) by simp
  have qpos: "0 < q" using apos assms(3) by (simp add: q_def)
  have qn: "q = of_int n + of_int r / of_int b"
    using assms(3) by (simp add: q_def a field_simps)
  have "(of_int r :: rat) / of_int b \<ge> 1 / of_int b"
    using r(1) bq by (simp add: divide_right_mono)
  then have lo: "of_int n + 1 / of_int b \<le> q" unfolding qn by simp
  have "(of_int r :: rat) \<le> of_int b - 1" using r(2) by (metis of_int_1 of_int_diff of_int_le_iff)
  then have "(of_int r :: rat) / of_int b \<le> (of_int b - 1) / of_int b"
    using bq by (simp add: divide_right_mono)
  also have "(of_int b - 1) / of_int b = 1 - 1 / (of_int b :: rat)"
    using bq by (simp add: field_simps)
  finally have hi: "q \<le> of_int n + 1 - 1 / of_int b" unfolding qn by simp
  have "(of_int a :: rat) < of_int (2 ^ 53)" using assms(2) by (simp only: of_int_less_iff)
  then have "(of_int a :: rat) / 2 ^ 53 < 1" by simp
  then have "(of_int a :: rat) / 2 ^ 53 / of_int b < 1 / of_int b"
    using bq by (simp only: divide_strict_right_mono)
  moreover have "q / 2 ^ 53 = (of_int a :: rat) / 2 ^ 53 / of_int b" by (simp add: q_def)
  ultimately have small: "q / 2 ^ 53 < 1 / of_int b" by simp
  have err: "\<bar>binary64 q - q\<bar> \<le> q / 2 ^ 53" by (rule binary64_error [OF qpos])
  have 1: "of_int n < binary64 q" using err small lo by linarith
  have 2: "binary64 q < of_int n + 1" using err small hi by linarith
  have f: "\<lfloor>binary64 q\<rfloor> = n" using 1 2 by linarith
  have c: "\<lceil>binary64 q\<rceil> = n + 1" using 1 2 by linarith
  have "(- a) div b = - n - 1"
    using False assms(3) by (simp add: zdiv_zminus1_eq_if n_def)
  then show ?thesis using f c by (simp add: q_def n_def)
qed

text \<open>\<open>Math.round(sum / 5)\<close>: rounding the rounded mean is rounding the exact mean.\<close>

lemma binary64_mean_round:
  assumes "0 \<le> s" and "s < 2 ^ 50"
  shows "Math_round (binary64 (of_int s / 5)) = Math_round (of_int s / 5)"
proof (cases "s = 0")
  case True
  then show ?thesis by (simp add: binary64_def)
next
  case False
  with assms have spos: "0 < s" by simp
  define q :: rat where "q = of_int s / 5"
  have qpos: "0 < q" using spos by (simp add: q_def)
  define h where "h = (2 * s + 5) div 10"
  define t where "t = (2 * s + 5) mod 10"
  have odd: "odd (2 * s + 5)" by simp
  have t: "1 \<le> t" "t \<le> 9" "2 * s + 5 = 10 * h + t"
  proof -
    have "0 \<le> t" "t < 10" by (simp_all add: t_def)
    moreover have "odd t" using odd unfolding t_def by presburger
    ultimately show "1 \<le> t" "t \<le> 9" by presburger+
    show "2 * s + 5 = 10 * h + t" by (simp add: h_def t_def)
  qed
  have "(of_int (2 * s + 5) :: rat) = of_int (10 * h + t)" using t(3) by simp
  then have "q + 1 / 2 = of_int h + of_int t / 10" by (simp add: q_def field_simps)
  moreover have "(1::rat) \<le> of_int t" "(of_int t :: rat) \<le> 9"
    using t(1,2) by simp_all
  ultimately have lo: "of_int h + 1 / 10 \<le> q + 1 / 2" and hi: "q + 1 / 2 \<le> of_int h + 9 / 10"
    by simp_all
  have "(of_int s :: rat) < of_int (2 ^ 50)" using assms(2) by (simp only: of_int_less_iff)
  then have "q < 2 ^ 50 / 5" by (simp add: q_def)
  then have small: "q / 2 ^ 53 < 1 / 40" by simp
  have err: "\<bar>binary64 q - q\<bar> \<le> q / 2 ^ 53" by (rule binary64_error [OF qpos])
  have "of_int h \<le> binary64 q + 1 / 2" "binary64 q + 1 / 2 < of_int h + 1"
    using err small lo hi by linarith+
  then have "\<lfloor>binary64 q + 1 / 2\<rfloor> = h" by linarith
  moreover have "\<lfloor>q + 1 / 2\<rfloor> = h" using lo hi by linarith
  ultimately show ?thesis by (simp add: Math_round_def q_def)
qed

text \<open>\<open>count * 0.5\<close> is exact for a count below \<open>2 ^ 53\<close>.\<close>

lemma binary64_half:
  assumes "0 \<le> c" and "c < 2 ^ 53"
  shows "binary64 (of_int c * binary64 (1 / 2)) = of_int c / 2"
proof -
  have h: "binary64 (1 / 2) = 1 / 2" using binary64_exact [of 1 1] by simp
  show ?thesis
  proof (cases "c = 0")
    case True
    then show ?thesis by (simp add: binary64_def)
  next
    case False
    with assms have "0 < c" by simp
    from binary64_exact [OF this assms(2), of 1] show ?thesis by (simp add: h)
  qed
qed

text \<open>
  \<open>Math.floor(count * 0.3)\<close>: the literal \<open>0.3\<close> denotes a binary64 number slightly below
  \<open>3/10\<close>, and the product is rounded again. As long as the product is below \<open>2 ^ 51\<close>, where
  the binary64 numbers are at most a quarter apart, its floor is still that of the exact
  product.
\<close>

lemma binary64_three_tenths_literal: "binary64 (3 / 10) = 5404319552844595 / 2 ^ 54"
  by code_simp

lemma binary64_three_tenths_main:
  assumes "0 < c" and "c \<le> 7505999378950826"
  shows "\<lfloor>binary64 (of_int c * binary64 (3 / 10))\<rfloor> = (3 * c) div 10"
proof -
  define d :: rat where "d = 5404319552844595 / 2 ^ 54"
  define p :: rat where "p = of_int c * d"
  have cr: "(0::rat) < of_int c" using assms(1) by simp
  have cb: "(of_int c :: rat) \<le> 7505999378950826"
  proof -
    have "(of_int c :: rat) \<le> of_int 7505999378950826"
      using assms(2) by (simp only: of_int_le_iff)
    then show ?thesis by simp
  qed
  have ppos: "0 < p" using cr by (simp add: p_def d_def)
  have pc: "p = of_int c * (5404319552844595 / 18014398509481984)"
    by (simp add: p_def d_def)
  have p51: "p < 2251799813685248" unfolding pc using cb by linarith
  define e where "e = exponent p"
  have eb: "2 powi e \<le> p" "p < 2 powi (e + 1)"
    unfolding e_def using exponent_bounds [OF ppos] by blast+
  have "(2::rat) powi e < 2 ^ 51" using eb(1) p51 by simp
  then have "(2::rat) powi e < 2 powi 51" by simp
  then have e51: "e < 51" by (rule power_int_less_exp)
  define k where "k = nat (52 - e)"
  have ke: "int k = 52 - e" using e51 by (simp add: k_def)
  have k2: "2 \<le> k" using e51 by (simp add: k_def)
  define T :: rat where "T = 2 ^ k"
  have "(2::rat) ^ 2 \<le> 2 ^ k" using k2 by (intro power_increasing) simp_all
  then have T4: "4 \<le> T" by (simp add: T_def)
  have pk: "(2::rat) powi (52 - e) = T"
    unfolding T_def using power_int_of_nat [of "2::rat" k] by (simp only: ke)
  have u: "(2::rat) powi (e - 52) = 1 / T"
  proof -
    have "e - 52 = - (52 - e)" by simp
    then have "(2::rat) powi (e - 52) = inverse (2 powi (52 - e))"
      by (simp only: power_int_minus)
    then show ?thesis by (simp add: pk inverse_eq_divide)
  qed
  have bot: "(2::rat) powi e * T = 4503599627370496"
  proof -
    have "(2::rat) powi e * 2 powi (52 - e) = 2 powi (e + (52 - e))"
      by (rule power_int_add [symmetric]) simp
    then show ?thesis by (simp add: pk)
  qed
  have top: "(2::rat) powi (e + 1) * T = 9007199254740992"
  proof -
    have "(2::rat) powi (e + 1) * 2 powi (52 - e) = 2 powi ((e + 1) + (52 - e))"
      by (rule power_int_add [symmetric]) simp
    then show ?thesis by (simp add: pk)
  qed
  have T0: "0 < T" using T4 by simp
  define A :: rat where "A = of_int c * T"
  define B :: rat where "B = p * T"
  have BA: "B = A * (5404319552844595 / 18014398509481984)"
    by (simp add: B_def A_def pc)
  have "2 powi e * T \<le> p * T" using eb(1) T0 by (simp only: mult_le_cancel_right_pos)
  then have Blo: "4503599627370496 \<le> B" by (simp only: bot B_def)
  have "p * T < 2 powi (e + 1) * T" using eb(2) T0 by (simp only: mult_less_cancel_right_pos)
  then have Bhi: "B < 9007199254740992" by (simp only: top B_def)
  define n where "n = (3 * c) div 10"
  define r where "r = (3 * c) mod 10"
  have nr: "3 * c = 10 * n + r" by (simp add: n_def r_def)
  have r09: "0 \<le> r" "r \<le> 9" by (simp_all add: r_def)
  define N :: rat where "N = of_int (n * 2 ^ k)"
  define R :: rat where "R = of_int r * T"
  have NT: "N = of_int n * T" by (simp add: N_def T_def)
  have R0: "0 \<le> R" using r09(1) T0 by (simp add: R_def)
  have "(of_int r :: rat) \<le> 9" using r09(2) by simp
  then have "of_int r * T \<le> 9 * T" using T0 by (simp only: mult_le_cancel_right_pos)
  then have R9: "R \<le> 9 * T" by (simp add: R_def)
  have "(of_int (3 * c) :: rat) = of_int (10 * n + r)" by (simp only: nr)
  then have "3 * (of_int c :: rat) = 10 * of_int n + of_int r" by simp
  then have "3 * (of_int c :: rat) * T = (10 * of_int n + of_int r) * T" by simp
  then have A3: "3 * A = 10 * N + R" by (simp add: A_def NT R_def algebra_simps)
  define m where "m = round_ties_even B"
  have me: "\<bar>of_int m - B\<bar> \<le> 1 / 2" unfolding m_def by (rule round_ties_even_error)
  have lo: "N - 1 < of_int m" using me BA A3 Bhi R0 by linarith
  have hi: "of_int m < N + T" using me BA A3 Blo R9 T4 by linarith
  have "(of_int (n * 2 ^ k - 1) :: rat) < of_int m" using lo by (simp add: N_def)
  then have "n * 2 ^ k - 1 < m" by (simp only: of_int_less_iff)
  then have "n * 2 ^ k \<le> m" by simp
  then have "(of_int (n * 2 ^ k) :: rat) \<le> of_int m" by (simp only: of_int_le_iff)
  then have lo': "of_int n * T \<le> of_int m" by (simp add: T_def)
  have hi': "of_int m < (of_int n + 1) * T" using hi by (simp add: NT algebra_simps)
  have b: "binary64 p = of_int m * (1 / T)"
    unfolding binary64_pos [OF ppos] e_def [symmetric] u m_def B_def by simp
  have 1: "of_int n \<le> binary64 p"
    unfolding b using lo' T0 by (simp add: field_simps)
  have 2: "binary64 p < of_int n + 1"
    unfolding b using hi' T0 by (simp add: field_simps)
  have "\<lfloor>binary64 p\<rfloor> = n" using 1 2 by linarith
  then show ?thesis
    unfolding p_def d_def n_def binary64_three_tenths_literal .
qed

text \<open>
  The next six counts, evaluated one by one, still agree; the count after them is the first
  where the rounded product reaches the next integer.
\<close>

lemma binary64_three_tenths_edge:
  "\<lfloor>binary64 (7505999378950827 * binary64 (3 / 10))\<rfloor> = (3 * 7505999378950827) div 10"
  "\<lfloor>binary64 (7505999378950828 * binary64 (3 / 10))\<rfloor> = (3 * 7505999378950828) div 10"
  "\<lfloor>binary64 (7505999378950829 * binary64 (3 / 10))\<rfloor> = (3 * 7505999378950829) div 10"
  "\<lfloor>binary64 (7505999378950830 * binary64 (3 / 10))\<rfloor> = (3 * 7505999378950830) div 10"
  "\<lfloor>binary64 (7505999378950831 * binary64 (3 / 10))\<rfloor> = (3 * 7505999378950831) div 10"
  "\<lfloor>binary64 (7505999378950832 * binary64 (3 / 10))\<rfloor> = (3 * 7505999378950832) div 10"
  by code_simp+

lemma binary64_three_tenths:
  assumes "0 \<le> c" and "c < 7505999378950833"
  shows "\<lfloor>binary64 (of_int c * binary64 (3 / 10))\<rfloor> = (3 * c) div 10"
proof -
  consider "c = 0" | "0 < c" "c \<le> 7505999378950826"
    | "c = 7505999378950827" | "c = 7505999378950828" | "c = 7505999378950829"
    | "c = 7505999378950830" | "c = 7505999378950831" | "c = 7505999378950832"
    using assms by linarith
  then show ?thesis
  proof cases
    case 1
    then show ?thesis by (simp add: binary64_def)
  next
    case 2
    then show ?thesis by (rule binary64_three_tenths_main)
  next
    case 3
    then show ?thesis using binary64_three_tenths_edge(1) by simp
  next
    case 4
    then show ?thesis using binary64_three_tenths_edge(2) by simp
  next
    case 5
    then show ?thesis using binary64_three_tenths_edge(3) by simp
  next
    case 6
    then show ?thesis using binary64_three_tenths_edge(4) by simp
  next
    case 7
    then show ?thesis using binary64_three_tenths_edge(5) by simp
  next
    case 8
    then show ?thesis using binary64_three_tenths_edge(6) by simp
  qed
qed

lemma binary64_three_tenths_first_failure:
  "\<lfloor>binary64 (7505999378950833 * binary64 (3 / 10))\<rfloor> = 2251799813685250
   \<and> (3 * 7505999378950833) div 10 = (2251799813685249 :: int)
   \<and> \<lfloor>binary64 (8000000000000003 * binary64 (3 / 10))\<rfloor> = 2400000000000001
   \<and> (3 * 8000000000000003) div 10 = (2400000000000000 :: int)"
  by code_simp

section \<open>Properties\<close>

subsection \<open>Elapsed days\<close>

lemma getDaysSince_Some:
  "getDaysSince now (Some t) = Some (- ((- \<bar>now - t\<bar>) div 86400000))"
proof -
  have "\<lceil>(of_int \<bar>now - t\<bar> :: rat) / of_int 86400000\<rceil> = - ((- \<bar>now - t\<bar>) div 86400000)"
    by (rule ceiling_divide_eq_div)
  then show ?thesis by (simp add: getDaysSince_def)
qed

lemma getDaysSince_None: "getDaysSince now None = None"
  by (simp add: getDaysSince_def)

lemma getDaysSince_nonneg: "getDaysSince now d = Some n \<Longrightarrow> 0 \<le> n"
  by (cases d) (auto simp: getDaysSince_Some getDaysSince_None)

lemma floor_div_Some: "floor_div (Some n) k = Some (n div k)"
  by (simp add: floor_div_def floor_divide_of_int_eq)

text \<open>
  C5. \<open>getDaysSince\<close> returns the ceiling of the absolute difference, in milliseconds, between
  the two instants divided by the length of a day: the least \<open>d\<close> with
  \<open>\<bar>a - b\<bar> \<le> d * 86400000\<close>. It gives the same number when the two instants are swapped,
  and the number is never negative, whichever instant is the later one.
\<close>

theorem daysSince_ceiling_symmetric:
  "\<exists>d. getDaysSince a (Some b) = Some d
     \<and> (d - 1) * 86400000 < \<bar>a - b\<bar> \<and> \<bar>a - b\<bar> \<le> d * 86400000
     \<and> getDaysSince b (Some a) = Some d
     \<and> 0 \<le> d"
proof -
  define d where "d = - ((- \<bar>a - b\<bar>) div 86400000)"
  have 1: "getDaysSince a (Some b) = Some d" by (simp add: getDaysSince_Some d_def)
  have 2: "getDaysSince b (Some a) = Some d"
    by (simp add: getDaysSince_Some d_def abs_minus_commute)
  define y where "y = \<bar>a - b\<bar>"
  define q where "q = (- y) div 86400000"
  define r where "r = (- y) mod 86400000"
  have r: "0 \<le> r" "r < 86400000" by (simp_all add: r_def)
  have e: "- y = q * 86400000 + r" by (simp add: q_def r_def)
  have dq: "d = - q" by (simp add: d_def q_def y_def)
  have 3: "(d - 1) * 86400000 < \<bar>a - b\<bar>"
    unfolding dq y_def [symmetric] using r e by simp
  have 4: "\<bar>a - b\<bar> \<le> d * 86400000"
    unfolding dq y_def [symmetric] using r e by simp
  have 5: "0 \<le> d" using 1 by (rule getDaysSince_nonneg)
  from 1 2 3 4 5 show ?thesis by blast
qed

subsection \<open>Relative-time text\<close>

lemma getTimeAgo_days:
  assumes "getDaysSince now d = Some n"
  shows "getTimeAgo now d = spec_timeAgo n"
proof -
  have "0 \<le> n" using assms by (rule getDaysSince_nonneg)
  then show ?thesis
    using assms
    by (simp add: getTimeAgo_def spec_timeAgo_def num_eq_def num_lt_def floor_div_Some
        String_of_num_def)
qed

text \<open>
  C4. When \<open>getDaysSince\<close> gives \<open>n\<close> days, \<open>getTimeAgo\<close> gives \<open>today\<close> for 0, \<open>1 day ago\<close>
  for 1, \<open>n days ago\<close> for 2 to 6, weeks (\<open>n div 7\<close>) for 7 to 29, months (\<open>n div 30\<close>) for
  30 to 364 and years (\<open>n div 365\<close>) from 365 on, each in the singular when the quotient is 1.
  So 7 days and 13 days both give \<open>1 week ago\<close>, 30 days \<open>1 month ago\<close>, 365 days
  \<open>1 year ago\<close>.
\<close>

theorem timeAgo_of_days:
  "(getDaysSince now d = Some n \<longrightarrow> getTimeAgo now d = spec_timeAgo n)
   \<and> getTimeAgo now (Some now) = ''today''
   \<and> getTimeAgo now (Some (now - 1 * 86400000)) = ''1 day ago''
   \<and> getTimeAgo now (Some (now - 7 * 86400000)) = ''1 week ago''
   \<and> getTimeAgo now (Some (now - 13 * 86400000)) = ''1 week ago''
   \<and> getTimeAgo now (Some (now - 30 * 86400000)) = ''1 month ago''
   \<and> getTimeAgo now (Some (now - 365 * 86400000)) = ''1 year ago''"
  by (simp add: getTimeAgo_days getDaysSince_Some spec_timeAgo_def)

theorem timeAgo_of_days_witness:
  "getDaysSince 0 (Some (- 1814400001)) = Some 22
   \<and> getTimeAgo 0 (Some (- 1814400001)) = ''3 weeks ago''"
  using timeAgo_of_days [of 0 "Some (- 1814400001)" 22]
  by (simp add: getDaysSince_Some spec_timeAgo_def String_of_def digit_def)

subsection \<open>Community sub-score\<close>

text \<open>
  C2. The community sub-score is the stars bucket plus the contributors bucket, capped at
  100. The sum of the two buckets never exceeds 100, so the cap changes nothing, and
  50000 stars with 500 contributors score exactly 100.
\<close>

theorem community_score_buckets:
  "calculateCommunityScore s c = min 100 (spec_stars_bucket s + spec_contributors_bucket c)
   \<and> spec_stars_bucket s + spec_contributors_bucket c \<le> 100
   \<and> calculateCommunityScore s c = spec_stars_bucket s + spec_contributors_bucket c
   \<and> calculateCommunityScore 50000 500 = 100"
  by (simp add: calculateCommunityScore_def spec_stars_bucket_def spec_contributors_bucket_def)

subsection \<open>Freshness sub-score\<close>

text \<open>
  C3. With \<open>dc\<close> days since the creation and \<open>dp\<close> days since the last push, the
  freshness sub-score is, when \<open>dc < 365\<close>: 95 for \<open>dp \<le> 30\<close>, 85 for \<open>dp \<le> 90\<close>, else
  70; and otherwise: 95 for \<open>dp \<le> 7\<close>, 85 for \<open>dp \<le> 30\<close>, 70 for \<open>dp \<le> 90\<close>, 55 for
  \<open>dp \<le> 180\<close>, else 35. A repository created 10 days ago and pushed 5 days ago scores 95
  (10 < 365: the first tier), one created 730 days ago and pushed 5 days ago scores 95 (the
  second tier); with a push 8 days ago the two tiers give 95 and 85. The instants \<open>n1\<close> and
  \<open>n2\<close> are those of the two clock reads, for the creation and for the push.
\<close>

theorem freshness_two_tiers:
  "(getDaysSince n1 c = Some dc \<and> getDaysSince n2 p = Some dp
      \<longrightarrow> calculateFreshnessScore n1 n2 c p = spec_freshness dc dp)
   \<and> getDaysSince n1 (Some (n1 - 10 * 86400000)) = Some 10
   \<and> getDaysSince n2 (Some (n2 - 5 * 86400000)) = Some 5
   \<and> getDaysSince n1 (Some (n1 - 730 * 86400000)) = Some 730
   \<and> calculateFreshnessScore n1 n2 (Some (n1 - 10 * 86400000)) (Some (n2 - 5 * 86400000)) = 95
   \<and> calculateFreshnessScore n1 n2 (Some (n1 - 730 * 86400000)) (Some (n2 - 5 * 86400000)) = 95
   \<and> calculateFreshnessScore n1 n2 (Some (n1 - 10 * 86400000)) (Some (n2 - 8 * 86400000)) = 95
   \<and> calculateFreshnessScore n1 n2 (Some (n1 - 730 * 86400000)) (Some (n2 - 8 * 86400000)) = 85"
  by (simp add: calculateFreshnessScore_def spec_freshness_def num_lt_def num_le_def
      getDaysSince_Some)

theorem freshness_two_tiers_witness:
  "getDaysSince 0 (Some (- 31536000000)) = Some 365
   \<and> getDaysSince 1 (Some (- 7776000000)) = Some 91
   \<and> calculateFreshnessScore 0 1 (Some (- 31536000000)) (Some (- 7776000000)) = 55"
  using freshness_two_tiers [of 0 "Some (- 31536000000)" 365 1 "Some (- 7776000000)" 91]
  by (simp add: getDaysSince_Some spec_freshness_def)

subsection \<open>The health score is the rounded mean\<close>

lemma Math_round_fifth: "Math_round (of_int s / 5) = (2 * s + 5) div 10"
proof -
  have "(of_int s :: rat) / 5 + 1 / 2 = of_int (2 * s + 5) / of_int 10"
    by simp
  then have "\<lfloor>(of_int s :: rat) / 5 + 1 / 2\<rfloor> = (2 * s + 5) div 10"
    by (simp only: floor_divide_of_int_eq)
  then show ?thesis by (simp add: Math_round_def)
qed

lemma calculateHealthScore_eq:
  "calculateHealthScore clk repo =
     (2 * (calculateActivityScore (clk 0) (pushed_at repo)
         + calculateCommunityScore (stargazers_count repo) (num_or (contributors repo) 0)
         + calculateDocumentationScore (description repo) (has_wiki repo) (has_pages repo)
             (homepage repo)
         + calculateFreshnessScore (clk 1) (clk 2) (created_at repo) (pushed_at repo)
         + calculateCompatibilityScore (license repo) (hasCI repo) (topics repo)) + 5) div 10"
proof -
  have "calculateHealthScore clk repo =
     Math_round (of_int (calculateActivityScore (clk 0) (pushed_at repo)
         + calculateCommunityScore (stargazers_count repo) (num_or (contributors repo) 0)
         + calculateDocumentationScore (description repo) (has_wiki repo) (has_pages repo)
             (homepage repo)
         + calculateFreshnessScore (clk 1) (clk 2) (created_at repo) (pushed_at repo)
         + calculateCompatibilityScore (license repo) (hasCI repo) (topics repo)) / 5)"
    by (simp add: calculateHealthScore_def Let_def)
  then show ?thesis by (simp only: Math_round_fifth)
qed

lemma healthBreakdown_eq:
  "healthBreakdown (transformGitHubRepoToRepository clk repo) =
     \<lparr> activity = calculateActivityScore (clk 3) (pushed_at repo),
       community =
         calculateCommunityScore (stargazers_count repo) (num_or (contributors repo) 0),
       documentation =
         calculateDocumentationScore (description repo) (has_wiki repo) (has_pages repo)
           (homepage repo),
       freshness = calculateFreshnessScore (clk 4) (clk 5) (created_at repo) (pushed_at repo),
       compatibility = calculateCompatibilityScore (license repo) (hasCI repo) (topics repo) \<rparr>"
  by (simp add: transformGitHubRepoToRepository_def Let_def)

lemma healthScore_eq:
  "healthScore (transformGitHubRepoToRepository clk repo) = calculateHealthScore clk repo"
  by (simp add: transformGitHubRepoToRepository_def Let_def)

lemma activity_days:
  "getDaysSince n p = getDaysSince n' p
     \<Longrightarrow> calculateActivityScore n p = calculateActivityScore n' p"
  by (simp add: calculateActivityScore_def)

lemma freshness_days:
  "getDaysSince n1 c = getDaysSince n1' c \<Longrightarrow> getDaysSince n2 p = getDaysSince n2' p
     \<Longrightarrow> calculateFreshnessScore n1 n2 c p = calculateFreshnessScore n1' n2' c p"
  by (simp add: calculateFreshnessScore_def)

text \<open>
  C1. The health score of \<open>calculateHealthScore\<close>, which is also the \<open>healthScore\<close> field of
  the transformer's result, is the mean of the five sub-scores that \<open>calculateHealthScore\<close>
  computes (their sum divided by 5) rounded to the nearest integer, a half upwards: it is
  the integer \<open>h\<close> with \<open>h - 1/2 \<le> mean < h + 1/2\<close>, that is \<open>(2 * sum + 5) div 10\<close>. Of the
  fields of the transformer's \<open>healthBreakdown\<close>, community, documentation and compatibility
  are these sub-scores; activity and freshness are computed again, on the clock reads
  number 3, 4 and 5. When these reads give the same numbers of days as the reads number 0, 1
  and 2 of \<open>calculateHealthScore\<close> (as under a clock that does not advance during the call),
  the health score is the rounded mean of the transformer's own \<open>healthBreakdown\<close>.
\<close>

theorem healthScore_rounded_mean:
  "let out = transformGitHubRepoToRepository clk repo;
       h = calculateHealthScore clk repo;
       a = calculateActivityScore (clk 0) (pushed_at repo);
       c = calculateCommunityScore (stargazers_count repo)
             (case contributors repo of None \<Rightarrow> 0 | Some n \<Rightarrow> n);
       d = calculateDocumentationScore (description repo) (has_wiki repo) (has_pages repo)
             (homepage repo);
       f = calculateFreshnessScore (clk 1) (clk 2) (created_at repo) (pushed_at repo);
       k = calculateCompatibilityScore (license repo) (hasCI repo) (topics repo);
       mean = (of_int (a + c + d + f + k) :: rat) / 5;
       b = healthBreakdown out;
       total = activity b + community b + documentation b + freshness b + compatibility b
   in healthScore out = h
      \<and> of_int h - 1 / 2 \<le> mean \<and> mean < of_int h + 1 / 2
      \<and> h = (2 * (a + c + d + f + k) + 5) div 10
      \<and> community b = c \<and> documentation b = d \<and> compatibility b = k
      \<and> activity b = calculateActivityScore (clk 3) (pushed_at repo)
      \<and> freshness b =
          calculateFreshnessScore (clk 4) (clk 5) (created_at repo) (pushed_at repo)
      \<and> (getDaysSince (clk 3) (pushed_at repo) = getDaysSince (clk 0) (pushed_at repo)
          \<and> getDaysSince (clk 4) (created_at repo) = getDaysSince (clk 1) (created_at repo)
          \<and> getDaysSince (clk 5) (pushed_at repo) = getDaysSince (clk 2) (pushed_at repo)
         \<longrightarrow> activity b = a \<and> freshness b = f
             \<and> of_int h - 1 / 2 \<le> (of_int total :: rat) / 5
             \<and> (of_int total :: rat) / 5 < of_int h + 1 / 2
             \<and> h = (2 * total + 5) div 10)"
proof -
  define a where "a = calculateActivityScore (clk 0) (pushed_at repo)"
  define c where
    "c = calculateCommunityScore (stargazers_count repo) (num_or (contributors repo) 0)"
  define d where
    "d = calculateDocumentationScore (description repo) (has_wiki repo) (has_pages repo)
           (homepage repo)"
  define f where
    "f = calculateFreshnessScore (clk 1) (clk 2) (created_at repo) (pushed_at repo)"
  define k where "k = calculateCompatibilityScore (license repo) (hasCI repo) (topics repo)"
  define total where "total = a + c + d + f + k"
  define h where "h = calculateHealthScore clk repo"
  have h: "h = (2 * total + 5) div 10"
    unfolding h_def total_def a_def c_def d_def f_def k_def by (rule calculateHealthScore_eq)
  have fl: "h = \<lfloor>(of_int total :: rat) / 5 + 1 / 2\<rfloor>"
    using Math_round_fifth [of total] h by (simp add: Math_round_def)
  define x where "x = (of_int total :: rat) / 5 + 1 / 2"
  have "of_int \<lfloor>x\<rfloor> \<le> x" and "x < of_int \<lfloor>x\<rfloor> + 1"
    by linarith+
  then have "of_int h \<le> x" and "x < of_int h + 1"
    unfolding fl x_def by blast+
  then have lo: "(of_int h :: rat) - 1 / 2 \<le> of_int total / 5"
    and hi: "(of_int total :: rat) / 5 < of_int h + 1 / 2"
    unfolding x_def by linarith+
  have no: "(case contributors repo of None \<Rightarrow> 0 | Some n \<Rightarrow> n) = num_or (contributors repo) 0"
    by (simp add: num_or_def split: option.splits)
  define b where "b = healthBreakdown (transformGitHubRepoToRepository clk repo)"
  have b: "community b = c" "documentation b = d" "compatibility b = k"
    "activity b = calculateActivityScore (clk 3) (pushed_at repo)"
    "freshness b = calculateFreshnessScore (clk 4) (clk 5) (created_at repo) (pushed_at repo)"
    by (simp_all add: b_def healthBreakdown_eq c_def d_def k_def)
  have same: "activity b = a \<and> freshness b = f
      \<and> activity b + community b + documentation b + freshness b + compatibility b = total"
    if "getDaysSince (clk 3) (pushed_at repo) = getDaysSince (clk 0) (pushed_at repo)"
      and "getDaysSince (clk 4) (created_at repo) = getDaysSince (clk 1) (created_at repo)"
      and "getDaysSince (clk 5) (pushed_at repo) = getDaysSince (clk 2) (pushed_at repo)"
  proof -
    have 1: "activity b = a"
      unfolding b(4) a_def using that(1) by (rule activity_days)
    have 2: "freshness b = f"
      unfolding b(5) f_def using that(2,3) by (rule freshness_days)
    from 1 2 b(1-3) show ?thesis by (simp add: total_def)
  qed
  have hs: "healthScore (transformGitHubRepoToRepository clk repo) = h"
    by (simp add: healthScore_eq h_def)
  show ?thesis
    unfolding Let_def no
    unfolding b_def [symmetric] h_def [symmetric] a_def [symmetric] c_def [symmetric]
      d_def [symmetric] f_def [symmetric] k_def [symmetric]
    using hs h lo hi b same unfolding total_def by auto
qed

theorem healthScore_rounded_mean_witness:
  "getDaysSince (ticking 3) (Some (- 1000)) = getDaysSince (ticking 0) (Some (- 1000))
   \<and> getDaysSince (ticking 4) (Some (- 5000)) = getDaysSince (ticking 1) (Some (- 5000))
   \<and> getDaysSince (ticking 5) (Some (- 1000)) = getDaysSince (ticking 2) (Some (- 1000))
   \<and> calculateHealthScore ticking
        (example_lively \<lparr> pushed_at := Some (- 1000), created_at := Some (- 5000) \<rparr>)
      = (2 * (activity (healthBreakdown (transformGitHubRepoToRepository ticking
                (example_lively \<lparr> pushed_at := Some (- 1000), created_at := Some (- 5000) \<rparr>)))
            + community (healthBreakdown (transformGitHubRepoToRepository ticking
                (example_lively \<lparr> pushed_at := Some (- 1000), created_at := Some (- 5000) \<rparr>)))
            + documentation (healthBreakdown (transformGitHubRepoToRepository ticking
                (example_lively \<lparr> pushed_at := Some (- 1000), created_at := Some (- 5000) \<rparr>)))
            + freshness (healthBreakdown (transformGitHubRepoToRepository ticking
                (example_lively \<lparr> pushed_at := Some (- 1000), created_at := Some (- 5000) \<rparr>)))
            + compatibility (healthBreakdown (transformGitHubRepoToRepository ticking
                (example_lively \<lparr> pushed_at := Some (- 1000), created_at := Some (- 5000) \<rparr>))))
         + 5) div 10"
proof -
  have d: "getDaysSince (ticking 3) (Some (- 1000)) = getDaysSince (ticking 0) (Some (- 1000))"
    "getDaysSince (ticking 4) (Some (- 5000)) = getDaysSince (ticking 1) (Some (- 5000))"
    "getDaysSince (ticking 5) (Some (- 1000)) = getDaysSince (ticking 2) (Some (- 1000))"
    by (simp_all add: getDaysSince_Some ticking_def)
  have r: "pushed_at (example_lively \<lparr> pushed_at := Some (- 1000), created_at := Some (- 5000) \<rparr>)
      = Some (- 1000)"
    "created_at (example_lively \<lparr> pushed_at := Some (- 1000), created_at := Some (- 5000) \<rparr>)
      = Some (- 5000)"
    by simp_all
  from healthScore_rounded_mean
    [of ticking "example_lively \<lparr> pushed_at := Some (- 1000), created_at := Some (- 5000) \<rparr>"]
  show ?thesis
    unfolding Let_def r using d by blast
qed

text \<open>
  Without that condition the two can differ. Under the ticking clock, the push of
  \<open>example_boundary\<close> is 7 days old at the reads number 0 and 2 and 8 days old at the reads
  number 3 and 5: the health score is 43, and the mean of the \<open>healthBreakdown\<close> is 40.
\<close>

theorem healthScore_breakdown_counterexample:
  "healthScore (transformGitHubRepoToRepository ticking example_boundary)
     \<noteq> Math_round
         (of_int
           (activity (healthBreakdown (transformGitHubRepoToRepository ticking example_boundary))
            + community (healthBreakdown (transformGitHubRepoToRepository ticking example_boundary))
            + documentation
                (healthBreakdown (transformGitHubRepoToRepository ticking example_boundary))
            + freshness (healthBreakdown (transformGitHubRepoToRepository ticking example_boundary))
            + compatibility
                (healthBreakdown (transformGitHubRepoToRepository ticking example_boundary)))
          / 5)
   \<and> healthScore (transformGitHubRepoToRepository ticking example_boundary) = 43
   \<and> healthBreakdown (transformGitHubRepoToRepository ticking example_boundary)
       = \<lparr> activity = 90, community = 25, documentation = 0, freshness = 85,
           compatibility = 0 \<rparr>
   \<and> Math_round (of_int (90 + 25 + 0 + 85 + 0) / 5) = 40"
proof -
  have b: "healthBreakdown (transformGitHubRepoToRepository ticking example_boundary)
       = \<lparr> activity = 90, community = 25, documentation = 0, freshness = 85,
           compatibility = 0 \<rparr>"
    by (simp add: healthBreakdown_eq example_boundary_def ticking_def
        calculateActivityScore_def calculateCommunityScore_def calculateDocumentationScore_def
        calculateFreshnessScore_def calculateCompatibilityScore_def getDaysSince_Some
        num_le_def num_lt_def num_or_def truthy_def flag_def)
  have h: "healthScore (transformGitHubRepoToRepository ticking example_boundary) = 43"
    by (simp add: healthScore_eq calculateHealthScore_eq example_boundary_def ticking_def
        calculateActivityScore_def calculateCommunityScore_def calculateDocumentationScore_def
        calculateFreshnessScore_def calculateCompatibilityScore_def getDaysSince_Some
        num_le_def num_lt_def num_or_def truthy_def flag_def)
  have m: "Math_round (of_int (90 + 25 + 0 + 85 + 0) / 5) = 40"
    using Math_round_fifth [of "90 + 25 + 0 + 85 + 0"] by simp
  show ?thesis unfolding b h using m by simp
qed

subsection \<open>Range of the health score\<close>

lemma activity_range:
  "30 \<le> calculateActivityScore now p \<and> calculateActivityScore now p \<le> 95"
  by (simp add: calculateActivityScore_def Let_def)

lemma community_range:
  "25 \<le> calculateCommunityScore s c \<and> calculateCommunityScore s c \<le> 100"
  by (simp add: calculateCommunityScore_def Let_def)

lemma documentation_range:
  "0 \<le> calculateDocumentationScore d w p h \<and> calculateDocumentationScore d w p h \<le> 100"
  by (simp add: calculateDocumentationScore_def Let_def)

lemma freshness_range:
  "35 \<le> calculateFreshnessScore n1 n2 c p \<and> calculateFreshnessScore n1 n2 c p \<le> 95"
  by (simp add: calculateFreshnessScore_def Let_def)

lemma compatibility_range:
  "0 \<le> calculateCompatibilityScore l c t \<and> calculateCompatibilityScore l c t \<le> 100"
  by (simp add: calculateCompatibilityScore_def Let_def)

text \<open>
  C9. The health score is always between 18 and 98, whatever the clock reads: activity is
  between 30 and 95, community is at least 25, freshness is between 35 and 95, so that the
  five sub-scores add up to between 90 and 490. The score is therefore never 0 and never
  100.
\<close>

theorem healthScore_range:
  "18 \<le> calculateHealthScore clk repo \<and> calculateHealthScore clk repo \<le> 98
   \<and> 30 \<le> calculateActivityScore now (pushed_at repo)
   \<and> calculateActivityScore now (pushed_at repo) \<le> 95
   \<and> 25 \<le> calculateCommunityScore (stargazers_count repo)
              (case contributors repo of None \<Rightarrow> 0 | Some n \<Rightarrow> n)
   \<and> 35 \<le> calculateFreshnessScore n1 n2 (created_at repo) (pushed_at repo)
   \<and> calculateFreshnessScore n1 n2 (created_at repo) (pushed_at repo) \<le> 95
   \<and> calculateHealthScore clk repo \<noteq> 0 \<and> calculateHealthScore clk repo \<noteq> 100"
proof -
  define a where "a = calculateActivityScore (clk 0) (pushed_at repo)"
  define c where
    "c = calculateCommunityScore (stargazers_count repo) (num_or (contributors repo) 0)"
  define d where
    "d = calculateDocumentationScore (description repo) (has_wiki repo) (has_pages repo)
           (homepage repo)"
  define f where
    "f = calculateFreshnessScore (clk 1) (clk 2) (created_at repo) (pushed_at repo)"
  define k where "k = calculateCompatibilityScore (license repo) (hasCI repo) (topics repo)"
  have h: "calculateHealthScore clk repo = (2 * (a + c + d + f + k) + 5) div 10"
    unfolding a_def c_def d_def f_def k_def by (rule calculateHealthScore_eq)
  have a: "30 \<le> a" "a \<le> 95" unfolding a_def using activity_range by blast+
  have c: "25 \<le> c" "c \<le> 100" unfolding c_def using community_range by blast+
  have d: "0 \<le> d" "d \<le> 100" unfolding d_def using documentation_range by blast+
  have f: "35 \<le> f" "f \<le> 95" unfolding f_def using freshness_range by blast+
  have k: "0 \<le> k" "k \<le> 100" unfolding k_def using compatibility_range by blast+
  define s where "s = a + c + d + f + k"
  have s: "90 \<le> s" "s \<le> 490" unfolding s_def using a c d f k by linarith+
  have "(2 * 90 + 5) div 10 \<le> (2 * s + 5) div (10 :: int)"
    by (rule zdiv_mono1) (use s in simp_all)
  then have lo: "18 \<le> calculateHealthScore clk repo"
    unfolding h s_def [symmetric] by simp
  have "(2 * s + 5) div 10 \<le> (2 * 490 + 5) div (10 :: int)"
    by (rule zdiv_mono1) (use s in simp_all)
  then have hi: "calculateHealthScore clk repo \<le> 98"
    unfolding h s_def [symmetric] by simp
  show ?thesis
    using lo hi activity_range [of now "pushed_at repo"]
      community_range [of "stargazers_count repo"
        "case contributors repo of None \<Rightarrow> 0 | Some n \<Rightarrow> n"]
      freshness_range [of n1 n2 "created_at repo" "pushed_at repo"]
    by simp
qed

text \<open>Both ends of the range are reached.\<close>

lemma healthScore_range_attained:
  "calculateHealthScore frozen example_dormant = 18
   \<and> calculateHealthScore frozen
       (example_lively \<lparr> description := Some ''A long enough description.'',
          license := Some \<lparr> spdx_id = ''MIT'', name = ''MIT License'' \<rparr>,
          topics := [''x''], has_pages := True, homepage := Some ''https://a.b'',
          stargazers_count := 50000, contributors := Some 500, hasCI := Some True \<rparr>) = 98"
  by (simp add: calculateHealthScore_eq example_dormant_def example_lively_def
      calculateActivityScore_def calculateCommunityScore_def calculateDocumentationScore_def
      calculateFreshnessScore_def calculateCompatibilityScore_def getDaysSince_Some
      num_le_def num_lt_def num_or_def truthy_def flag_def frozen_def)

subsection \<open>Signals and trend\<close>

lemma num_le_iff: "num_le x k = (\<exists>d. x = Some d \<and> d \<le> k)"
  by (cases x) (simp_all add: num_le_def)

lemma num_lt_iff: "num_lt x k = (\<exists>d. x = Some d \<and> d < k)"
  by (cases x) (simp_all add: num_lt_def)

lemma num_gt_iff: "num_gt x k = (\<exists>d. x = Some d \<and> d > k)"
  by (cases x) (simp_all add: num_gt_def)

lemma truthy_iff: "truthy s = (\<exists>h. s = Some h \<and> h \<noteq> [])"
  by (cases s) (simp_all add: truthy_def)

lemma signals_eq:
  "signals (transformGitHubRepoToRepository clk r) =
     (if cond_Active (clk 6) r then [''Active''] else [])
     @ (if cond_GoodDocs r then [''Good Docs''] else [])
     @ (if cond_BeginnerFriendly r then [''Beginner Friendly''] else [])
     @ (if cond_LargeCommunity r then [''Large Community''] else [])
     @ (if cond_Modern (clk 7) r then [''Modern''] else [])"
  by (simp add: transformGitHubRepoToRepository_def Let_def cond_Active_def cond_GoodDocs_def
      cond_BeginnerFriendly_def cond_LargeCommunity_def cond_Modern_def
      num_le_iff [symmetric] num_lt_iff [symmetric] num_gt_iff [symmetric] truthy_iff [symmetric])

lemma trend_eq:
  "trend (transformGitHubRepoToRepository clk r) =
     (if cond_Active (clk 6) r then up
      else if num_gt (getDaysSince (clk 6) (pushed_at r)) 90 then down else stable)"
  by (simp add: transformGitHubRepoToRepository_def Let_def cond_Active_def
      num_le_iff [symmetric])

text \<open>
  C6. The signals list holds exactly the labels whose conditions hold, in the order
  \<open>Active\<close> (pushed at most 7 days ago), \<open>Good Docs\<close> (wiki, site, or a homepage that is
  neither null nor empty),
  \<open>Beginner Friendly\<close> (a positive number of good first issues), \<open>Large Community\<close> (at
  least 10000 stars), \<open>Modern\<close> (created less than 730 days ago). When all five conditions
  hold the list is these five labels in this order; when none holds it is empty. The days
  since the push are those of the clock read number 6, the days since the creation those of
  the read number 7.
\<close>

theorem signals_fixed_order:
  "signals (transformGitHubRepoToRepository clk r) =
     spec_signals [cond_Active (clk 6) r, cond_GoodDocs r, cond_BeginnerFriendly r,
       cond_LargeCommunity r, cond_Modern (clk 7) r]
   \<and> (cond_Active (clk 6) r \<and> cond_GoodDocs r \<and> cond_BeginnerFriendly r
        \<and> cond_LargeCommunity r \<and> cond_Modern (clk 7) r
      \<longrightarrow> signals (transformGitHubRepoToRepository clk r) =
          [''Active'', ''Good Docs'', ''Beginner Friendly'', ''Large Community'', ''Modern''])
   \<and> (\<not> cond_Active (clk 6) r \<and> \<not> cond_GoodDocs r \<and> \<not> cond_BeginnerFriendly r
        \<and> \<not> cond_LargeCommunity r \<and> \<not> cond_Modern (clk 7) r
      \<longrightarrow> signals (transformGitHubRepoToRepository clk r) = [])"
  by (simp add: signals_eq spec_signals_def)

theorem signals_fixed_order_witness:
  "(cond_Active 0 example_lively \<and> cond_GoodDocs example_lively
      \<and> cond_BeginnerFriendly example_lively \<and> cond_LargeCommunity example_lively
      \<and> cond_Modern 0 example_lively)
   \<and> signals (transformGitHubRepoToRepository frozen example_lively) =
       [''Active'', ''Good Docs'', ''Beginner Friendly'', ''Large Community'', ''Modern'']
   \<and> (\<not> cond_Active 0 example_dormant \<and> \<not> cond_GoodDocs example_dormant
      \<and> \<not> cond_BeginnerFriendly example_dormant \<and> \<not> cond_LargeCommunity example_dormant
      \<and> \<not> cond_Modern 0 example_dormant)
   \<and> signals (transformGitHubRepoToRepository frozen example_dormant) = []"
  using signals_fixed_order [of frozen example_lively]
    signals_fixed_order [of frozen example_dormant]
  by (simp add: cond_Active_def cond_GoodDocs_def cond_BeginnerFriendly_def
      cond_LargeCommunity_def cond_Modern_def getDaysSince_Some example_lively_def
      example_dormant_def spec_signals_def frozen_def)

text \<open>
  C10. The trend is \<open>up\<close> exactly when \<open>Active\<close> is in the signals list: both are decided
  by the last push being at most 7 days old, on the one number of days that the clock read
  number 6 gives. So when the trend is \<open>down\<close> or \<open>stable\<close>, \<open>Active\<close> is not in the list.
\<close>

theorem trend_up_iff_Active:
  "(trend (transformGitHubRepoToRepository clk r) = up)
     = (''Active'' \<in> set (signals (transformGitHubRepoToRepository clk r)))
   \<and> (trend (transformGitHubRepoToRepository clk r) = up)
     = (\<exists>d. getDaysSince (clk 6) (pushed_at r) = Some d \<and> d \<le> 7)
   \<and> (trend (transformGitHubRepoToRepository clk r) = down
        \<or> trend (transformGitHubRepoToRepository clk r) = stable
      \<longrightarrow> ''Active'' \<notin> set (signals (transformGitHubRepoToRepository clk r)))"
  by (simp add: signals_eq trend_eq) (simp add: cond_Active_def)

theorem trend_up_iff_Active_witness:
  "trend (transformGitHubRepoToRepository frozen example_dormant) = down
   \<and> ''Active'' \<notin> set (signals (transformGitHubRepoToRepository frozen example_dormant))"
  using trend_up_iff_Active [of frozen example_dormant]
  by (simp add: trend_eq cond_Active_def getDaysSince_Some num_gt_def example_dormant_def
      frozen_def)

subsection \<open>Fixed and estimated fields\<close>

lemma activeContributors_eq:
  "activeContributors (transformGitHubRepoToRepository clk r) =
     \<lfloor>binary64 (of_int (num_or (contributors r) 0) * binary64 (3 / 10))\<rfloor>"
  by (simp add: transformGitHubRepoToRepository_def Let_def)

lemma contributorDiversity_eq:
  "contributorDiversity (transformGitHubRepoToRepository clk r) =
     \<lfloor>binary64 (of_int (num_or (contributors r) 0) * binary64 (1 / 2))\<rfloor>"
  by (simp add: transformGitHubRepoToRepository_def Let_def)

text \<open>
  C7. Whatever the input, the transformer gives the average issue response time
  \<open>< 2 days\<close>, the merge rate 75 and the code coverage 80. The estimate of active
  contributors is the floor of the binary64 product of the contributor count and \<open>0.3\<close>,
  and the diversity estimate the floor of the binary64 product of the count and \<open>0.5\<close>,
  where an absent count is 0. For every count from 0 to 7505999378950832 the first is the
  floor of the exact product, \<open>3 * c div 10\<close>; for every count from 0 below \<open>2 ^ 53\<close> the
  second is the floor of the exact product, \<open>c div 2\<close>.
\<close>

theorem filler_fields:
  "let out = transformGitHubRepoToRepository clk r;
       c = (case contributors r of None \<Rightarrow> 0 | Some n \<Rightarrow> n)
   in avgIssueResponseTime out = ''< 2 days''
      \<and> prMergeRate out = 75
      \<and> codeCoverage out = 80
      \<and> activeContributors out = \<lfloor>binary64 (of_int c * binary64 (3 / 10))\<rfloor>
      \<and> contributorDiversity out = \<lfloor>binary64 (of_int c * binary64 (1 / 2))\<rfloor>
      \<and> (0 \<le> c \<and> c < 7505999378950833
          \<longrightarrow> activeContributors out = \<lfloor>(3 / 10 :: rat) * of_int c\<rfloor>
              \<and> activeContributors out = (3 * c) div 10)
      \<and> (0 \<le> c \<and> c < 2 ^ 53
          \<longrightarrow> contributorDiversity out = \<lfloor>(1 / 2 :: rat) * of_int c\<rfloor>
              \<and> contributorDiversity out = c div 2)"
proof -
  define c where "c = (case contributors r of None \<Rightarrow> 0 | Some n \<Rightarrow> n)"
  have no: "num_or (contributors r) 0 = c"
    by (simp add: num_or_def c_def split: option.splits)
  have "(3 / 10 :: rat) * of_int c = of_int (3 * c) / of_int 10" by simp
  then have a': "\<lfloor>(3 / 10 :: rat) * of_int c\<rfloor> = (3 * c) div 10"
    by (simp only: floor_divide_of_int_eq)
  have "(1 / 2 :: rat) * of_int c = of_int c / of_int 2" by simp
  then have b': "\<lfloor>(1 / 2 :: rat) * of_int c\<rfloor> = c div 2"
    by (simp only: floor_divide_of_int_eq)
  have 1: "activeContributors (transformGitHubRepoToRepository clk r) =
      \<lfloor>binary64 (of_int c * binary64 (3 / 10))\<rfloor>"
    unfolding activeContributors_eq no ..
  have 2: "contributorDiversity (transformGitHubRepoToRepository clk r) =
      \<lfloor>binary64 (of_int c * binary64 (1 / 2))\<rfloor>"
    unfolding contributorDiversity_eq no ..
  have 3: "avgIssueResponseTime (transformGitHubRepoToRepository clk r) = ''< 2 days''"
    "prMergeRate (transformGitHubRepoToRepository clk r) = 75"
    "codeCoverage (transformGitHubRepoToRepository clk r) = 80"
    by (simp_all add: transformGitHubRepoToRepository_def Let_def)
  have 4: "activeContributors (transformGitHubRepoToRepository clk r) = (3 * c) div 10"
    if "0 \<le> c" and "c < 7505999378950833"
    unfolding 1 using that by (rule binary64_three_tenths)
  have 5: "contributorDiversity (transformGitHubRepoToRepository clk r) = c div 2"
    if "0 \<le> c" and "c < 2 ^ 53"
  proof -
    have "binary64 (of_int c * binary64 (1 / 2)) = of_int c / of_int 2"
      using binary64_half [OF that] by simp
    then have "\<lfloor>binary64 (of_int c * binary64 (1 / 2))\<rfloor> = \<lfloor>(of_int c :: rat) / of_int 2\<rfloor>"
      by (rule arg_cong)
    then show ?thesis unfolding 2 by (simp only: floor_divide_of_int_eq)
  qed
  show ?thesis
    unfolding Let_def c_def [symmetric] a' b' using 1 2 3 4 5 by blast
qed

theorem filler_fields_witness:
  "(0::int) \<le> 7 \<and> (7::int) < 7505999378950833 \<and> (7::int) < 2 ^ 53
   \<and> activeContributors
       (transformGitHubRepoToRepository frozen (example_lively \<lparr> contributors := Some 7 \<rparr>)) = 2
   \<and> contributorDiversity
       (transformGitHubRepoToRepository frozen (example_lively \<lparr> contributors := Some 7 \<rparr>)) = 3"
proof -
  have h: "(0::int) \<le> 7" "(7::int) < 7505999378950833" "(7::int) < 2 ^ 53" by simp_all
  have c: "(case contributors (example_lively \<lparr> contributors := Some 7 \<rparr>) of
      None \<Rightarrow> 0 | Some n \<Rightarrow> n) = 7"
    by simp
  from filler_fields [of frozen "example_lively \<lparr> contributors := Some 7 \<rparr>"]
  have "activeContributors
       (transformGitHubRepoToRepository frozen (example_lively \<lparr> contributors := Some 7 \<rparr>))
        = (3 * 7) div 10
      \<and> contributorDiversity
       (transformGitHubRepoToRepository frozen (example_lively \<lparr> contributors := Some 7 \<rparr>))
        = 7 div 2"
    unfolding Let_def c using h by blast
  with h show ?thesis by simp
qed

text \<open>
  Beyond that count the two floors can differ: 7505999378950833 is the first count where
  they do, and for 8000000000000003 contributors the program gives 2400000000000001, one
  more than the floor of the exact product.
\<close>

theorem activeContributors_counterexample:
  "activeContributors
     (transformGitHubRepoToRepository frozen
       (example_lively \<lparr> contributors := Some 8000000000000003 \<rparr>))
     \<noteq> \<lfloor>(3 / 10 :: rat) * of_int 8000000000000003\<rfloor>
   \<and> activeContributors
       (transformGitHubRepoToRepository frozen
         (example_lively \<lparr> contributors := Some 8000000000000003 \<rparr>)) = 2400000000000001
   \<and> \<lfloor>(3 / 10 :: rat) * of_int 8000000000000003\<rfloor> = 2400000000000000"
proof -
  have c: "num_or (contributors (example_lively \<lparr> contributors := Some 8000000000000003 \<rparr>)) 0
      = 8000000000000003"
    by (simp add: num_or_def)
  have a: "activeContributors
       (transformGitHubRepoToRepository frozen
         (example_lively \<lparr> contributors := Some 8000000000000003 \<rparr>)) = 2400000000000001"
    unfolding activeContributors_eq c using binary64_three_tenths_first_failure by simp
  have "(3 / 10 :: rat) * of_int 8000000000000003 = of_int (3 * 8000000000000003) / of_int 10"
    by simp
  then have "\<lfloor>(3 / 10 :: rat) * of_int 8000000000000003\<rfloor> = (3 * 8000000000000003) div 10"
    by (simp only: floor_divide_of_int_eq)
  then have e: "\<lfloor>(3 / 10 :: rat) * of_int 8000000000000003\<rfloor> = 2400000000000000" by simp
  show ?thesis unfolding a e by simp
qed

subsection \<open>Defaults for absent fields\<close>

text \<open>
  C8. The functions are total: no operation of the program fails on a record of the input
  type, every read of an optional or nullable field being guarded by a default. An absent
  contributor count gives the same result as the count 0; an absent license is displayed as
  \<open>No License\<close> and adds nothing to the compatibility sub-score (a license adds 40); an
  absent description is displayed as \<open>No description available\<close>; an absent CI signal gives
  the same result as \<open>false\<close>, with the status \<open>warning\<close>.
\<close>

theorem defaults_for_absent_fields:
  "transformGitHubRepoToRepository clk (r\<lparr>contributors := None\<rparr>)
     = transformGitHubRepoToRepository clk (r\<lparr>contributors := Some 0\<rparr>)
   \<and> calculateHealthScore clk (r\<lparr>contributors := None\<rparr>)
     = calculateHealthScore clk (r\<lparr>contributors := Some 0\<rparr>)
   \<and> Repository.contributors (transformGitHubRepoToRepository clk (r\<lparr>contributors := None\<rparr>)) = 0
   \<and> Repository.license (transformGitHubRepoToRepository clk (r\<lparr>license := None\<rparr>))
     = ''No License''
   \<and> calculateCompatibilityScore None ci ts + 40 = calculateCompatibilityScore (Some l) ci ts
   \<and> calculateCompatibilityScore None None [] = 0
   \<and> Repository.description (transformGitHubRepoToRepository clk (r\<lparr>description := None\<rparr>))
     = ''No description available''
   \<and> transformGitHubRepoToRepository clk (r\<lparr>hasCI := None\<rparr>)
     = transformGitHubRepoToRepository clk (r\<lparr>hasCI := Some False\<rparr>)
   \<and> calculateHealthScore clk (r\<lparr>hasCI := None\<rparr>)
     = calculateHealthScore clk (r\<lparr>hasCI := Some False\<rparr>)
   \<and> ciStatus (transformGitHubRepoToRepository clk (r\<lparr>hasCI := None\<rparr>)) = ''warning''"
  by (simp add: transformGitHubRepoToRepository_def calculateHealthScore_def Let_def
      num_or_def str_or_def flag_def calculateCompatibilityScore_def)

subsection \<open>Boundary cases and an example\<close>

text \<open>
  A string that is not a date gives \<open>NaN\<close> days, for which every comparison fails: the
  last branch of each ladder is taken.
\<close>

lemma invalid_date:
  "getDaysSince now None = None
   \<and> calculateActivityScore now None = 30
   \<and> calculateFreshnessScore n1 n2 None None = 35
   \<and> calculateFreshnessScore n1 n2 (Some n1) None = 70
   \<and> getTimeAgo now None = ''NaN years ago''"
  by (simp add: getDaysSince_None getDaysSince_Some calculateActivityScore_def
      calculateFreshnessScore_def getTimeAgo_def num_le_def num_lt_def num_eq_def
      floor_div_def String_of_num_def)

lemma activity_boundaries:
  "calculateActivityScore now (Some (now - 7 * 86400000)) = 95
   \<and> calculateActivityScore now (Some (now - 8 * 86400000)) = 90
   \<and> calculateActivityScore now (Some (now - 30 * 86400000)) = 85
   \<and> calculateActivityScore now (Some (now - 31 * 86400000)) = 75
   \<and> calculateActivityScore now (Some (now - 180 * 86400000)) = 50
   \<and> calculateActivityScore now (Some (now - 181 * 86400000)) = 30
   \<and> calculateActivityScore now (Some (now - 7 * 86400000 - 1)) = 90
   \<and> calculateActivityScore now (Some (now + 7 * 86400000)) = 95"
  by (simp add: calculateActivityScore_def getDaysSince_Some num_le_def)

lemma documentation_boundaries:
  "calculateDocumentationScore (Some ''12345678901234567890'') False False None = 0
   \<and> calculateDocumentationScore (Some ''123456789012345678901'') False False None = 25
   \<and> calculateDocumentationScore None True True (Some '''') = 50"
  by (simp add: calculateDocumentationScore_def truthy_def)

lemma transform_example:
  "transformGitHubRepoToRepository frozen example_lively =
     \<lparr> Repository.id' = ''1'', Repository.name = ''a'',
       Repository.description = ''No description available'', stars = 20000,
       healthScore = 54, lastCommit = ''1 day ago'', Repository.goodFirstIssues = 3,
       ciStatus = ''warning'', Repository.language = ''C'',
       Repository.license = ''No License'', Repository.contributors = 0,
       Repository.topics = [],
       signals = [''Active'', ''Good Docs'', ''Beginner Friendly'', ''Large Community'',
         ''Modern''],
       trend = up,
       healthBreakdown = \<lparr> activity = 95, community = 55, documentation = 25,
         freshness = 95, compatibility = 0 \<rparr>,
       avgIssueResponseTime = ''< 2 days'', prMergeRate = 75, activeContributors = 0,
       contributorDiversity = 0, codeCoverage = 80, hasGoodDocs = True, hasWiki = True,
       hasWebsite = False \<rparr>"
  by (simp add: transformGitHubRepoToRepository_def calculateHealthScore_eq example_lively_def
      calculateActivityScore_def calculateCommunityScore_def calculateDocumentationScore_def
      calculateFreshnessScore_def calculateCompatibilityScore_def getDaysSince_Some
      getTimeAgo_def num_le_def num_lt_def num_gt_def num_eq_def num_or_def str_or_def
      truthy_def flag_def String_of_def digit_def frozen_def binary64_def)

end
